theory Spec2Isabelle
  imports Complex_Main
begin

section \<open>JavaScript values\<close>

text \<open>
  A number is an IEEE double. The constructors are chosen so that HOL equality on
  \<open>jsnum\<close> is the SameValue relation of \<open>Object.is\<close>: there is one \<open>NaN\<close>
  (equal to itself), and \<open>NegZero\<close> is \<open>-0\<close>, distinct from \<open>Finite 0\<close>, which is
  \<open>+0\<close>.
\<close>

datatype jsnum = NaN | PosInfinity | NegInfinity | NegZero | Finite rat

text \<open>
  A value of type \<open>unknown\<close>. Functions and objects are references: the natural
  number is the identity of the object, its properties live in the heap.
\<close>

datatype jsval =
    JUndefined
  | JNull
  | JBoolean bool
  | JNumber jsnum
  | JString string
  | JBigInt int
  | JSymbol nat
  | JFunction nat
  | JObject nat

fun typeof :: "jsval \<Rightarrow> string" where
  "typeof JUndefined = ''undefined''"
| "typeof JNull = ''object''"
| "typeof (JBoolean b) = ''boolean''"
| "typeof (JNumber n) = ''number''"
| "typeof (JString s) = ''string''"
| "typeof (JBigInt i) = ''bigint''"
| "typeof (JSymbol s) = ''symbol''"
| "typeof (JFunction f) = ''function''"
| "typeof (JObject r) = ''object''"

text \<open>\<open>Object.is(a, b)\<close>: SameValue, which is equality of the representation.\<close>

definition Object_is :: "jsval \<Rightarrow> jsval \<Rightarrow> bool" where
  "Object_is a b = (a = b)"

text \<open>
  \<open>a === b\<close>: as \<open>Object.is\<close>, but \<open>NaN\<close> is not equal to itself and the two
  zeros are equal.
\<close>

fun strict_equals :: "jsval \<Rightarrow> jsval \<Rightarrow> bool" where
  "strict_equals (JNumber x) (JNumber y) =
     (x \<noteq> NaN \<and> y \<noteq> NaN \<and>
      (x = y \<or> (x = NegZero \<or> x = Finite 0) \<and> (y = NegZero \<or> y = Finite 0)))"
| "strict_equals a b = (a = b)"

text \<open>
  An object is the list of its own string-keyed properties, each with its
  \<open>enumerable\<close> attribute and its value. An array is an object whose elements are
  the enumerable properties \<open>"0"\<close>, \<open>"1"\<close>, ... and whose \<open>length\<close> is an own
  property that is not enumerable.
\<close>

datatype property = Property (enumerable: bool) (pvalue: jsval)

type_synonym object = "(string \<times> property) list"

type_synonym heap = "nat \<Rightarrow> object"

text \<open>The own properties of a value: bound to objects and functions only.\<close>

fun own_properties :: "heap \<Rightarrow> jsval \<Rightarrow> object" where
  "own_properties h (JObject r) = h r"
| "own_properties h (JFunction r) = h r"
| "own_properties h v = []"

text \<open>\<open>Object.keys(o)\<close>: the own enumerable string keys.\<close>

definition Object_keys :: "heap \<Rightarrow> jsval \<Rightarrow> string list" where
  "Object_keys h v = map fst (filter (\<lambda>kp. enumerable (snd kp)) (own_properties h v))"

text \<open>
  \<open>Object.prototype.hasOwnProperty.call(o, key)\<close>: an own property of that name,
  enumerable or not.
\<close>

definition hasOwnProperty :: "heap \<Rightarrow> jsval \<Rightarrow> string \<Rightarrow> bool" where
  "hasOwnProperty h v key = (map_of (own_properties h v) key \<noteq> None)"

text \<open>\<open>o[key]\<close> for an own data property; \<open>undefined\<close> when there is none.\<close>

definition get_property :: "heap \<Rightarrow> jsval \<Rightarrow> string \<Rightarrow> jsval" where
  "get_property h v key =
     (case map_of (own_properties h v) key of None \<Rightarrow> JUndefined | Some p \<Rightarrow> pvalue p)"

text \<open>
  \<open>deps[i]\<close> on a dependency list: a read past the end of a JavaScript array
  returns \<open>undefined\<close>.
\<close>

definition array_get :: "jsval list \<Rightarrow> nat \<Rightarrow> jsval" where
  "array_get xs i = (if i < length xs then xs ! i else JUndefined)"

section \<open>The process: environment, module state, console, heap\<close>

text \<open>
  \<open>NODE_ENV\<close> is \<open>process.env.NODE_ENV\<close> (\<open>None\<close> when it is not set). \<open>DEV\<close> is
  the module constant \<open>__DEV__\<close> of devOnly.ts, \<open>warnedKeys\<close> the module-level set of
  warn.ts, \<open>console\<close> the messages passed to \<open>console.warn\<close>, oldest first.
  \<open>setStateCalls\<close> and \<open>dispatchCalls\<close> record the arguments with which React's own
  \<open>setState\<close> and \<open>dispatch\<close> were invoked.
\<close>

record world =
  NODE_ENV :: "string option"
  DEV :: bool
  warnedKeys :: "string set"
  console :: "string list"
  heap :: heap
  setStateCalls :: "jsval list"
  dispatchCalls :: "jsval list"

text \<open>
  Loading the modules: \<open>export const __DEV__ = process.env.NODE_ENV !== "production"\<close>
  and \<open>const warnedKeys = new Set<string>()\<close> are evaluated once, here.
\<close>

definition load_modules :: "string option \<Rightarrow> heap \<Rightarrow> world" where
  "load_modules env h =
     \<lparr> NODE_ENV = env, DEV = (env \<noteq> Some ''production''), warnedKeys = {},
       console = [], heap = h, setStateCalls = [], dispatchCalls = [] \<rparr>"

text \<open>An assignment to \<open>process.env.NODE_ENV\<close> while the process runs.\<close>

definition set_NODE_ENV :: "string option \<Rightarrow> world \<Rightarrow> world" where
  "set_NODE_ENV env w = w\<lparr> NODE_ENV := env \<rparr>"

section \<open>depsTracker\<close>

fun shallowEqual_loop :: "heap \<Rightarrow> jsval \<Rightarrow> jsval \<Rightarrow> string list \<Rightarrow> bool" where
  "shallowEqual_loop h a b [] = True"
| "shallowEqual_loop h a b (key # keys) =
     (if \<not> hasOwnProperty h b key \<or>
         \<not> Object_is (get_property h a key) (get_property h b key)
      then False
      else shallowEqual_loop h a b keys)"

definition shallowEqual :: "world \<Rightarrow> jsval \<Rightarrow> jsval \<Rightarrow> bool" where
  "shallowEqual w a b =
     (if Object_is a b then True
      else if typeof a \<noteq> ''object'' \<or> a = JNull \<or> typeof b \<noteq> ''object'' \<or> b = JNull
      then False
      else
        let keysA = Object_keys (heap w) a;
            keysB = Object_keys (heap w) b
        in if length keysA \<noteq> length keysB then False
           else shallowEqual_loop (heap w) a b keysA)"

record DepsChangeResult =
  hasChanges :: bool
  changedIndices :: "nat list"
  lengthChanged :: bool
  prevLength :: "nat option"
  currentLength :: "nat option"

function trackDependencyChanges_loop ::
  "jsval list \<Rightarrow> jsval list \<Rightarrow> nat \<Rightarrow> nat \<Rightarrow> nat list \<Rightarrow> nat list" where
  "trackDependencyChanges_loop currentDeps prevDeps maxLength i changed =
     (if i < maxLength
      then trackDependencyChanges_loop currentDeps prevDeps maxLength (i + 1)
             (if \<not> Object_is (array_get currentDeps i) (array_get prevDeps i)
              then changed @ [i] else changed)
      else changed)"
  by pat_completeness auto
termination
  by (relation "measure (\<lambda>(c, p, m, i, a). m - i)") auto

definition trackDependencyChanges ::
  "jsval list option \<Rightarrow> jsval list option \<Rightarrow> DepsChangeResult" where
  "trackDependencyChanges currentDeps prevDeps =
     (case (currentDeps, prevDeps) of
        (None, None) \<Rightarrow>
          \<lparr> hasChanges = False, changedIndices = [], lengthChanged = False,
            prevLength = None, currentLength = None \<rparr>
      | (None, Some p) \<Rightarrow>
          \<lparr> hasChanges = True, changedIndices = [], lengthChanged = True,
            prevLength = Some (length p), currentLength = None \<rparr>
      | (Some c, None) \<Rightarrow>
          \<lparr> hasChanges = True, changedIndices = [], lengthChanged = True,
            prevLength = None, currentLength = Some (length c) \<rparr>
      | (Some c, Some p) \<Rightarrow>
          let lengthChanged = (length c \<noteq> length p);
              maxLength = max (length c) (length p);
              changed = trackDependencyChanges_loop c p maxLength 0 []
          in \<lparr> hasChanges = (length changed > 0 \<or> lengthChanged),
               changedIndices = changed,
               lengthChanged = lengthChanged,
               prevLength = (if lengthChanged then Some (length p) else None),
               currentLength = (if lengthChanged then Some (length c) else None) \<rparr>)"

function detectUnstableDeps_loop ::
  "world \<Rightarrow> jsval list \<Rightarrow> jsval list \<Rightarrow> nat \<Rightarrow> nat list \<Rightarrow> nat list" where
  "detectUnstableDeps_loop w currentDeps prevDeps i unstableIndices =
     (if i < length currentDeps
      then
        let current = array_get currentDeps i;
            prev = array_get prevDeps i
        in detectUnstableDeps_loop w currentDeps prevDeps (i + 1)
             (if \<not> strict_equals current prev \<and>
                 typeof current = ''object'' \<and> current \<noteq> JNull \<and>
                 typeof prev = ''object'' \<and> prev \<noteq> JNull
              then (if shallowEqual w current prev
                    then unstableIndices @ [i] else unstableIndices)
              else unstableIndices)
      else unstableIndices)"
  by pat_completeness auto
termination
  by (relation "measure (\<lambda>(w, c, p, i, a). length c - i)") auto

definition detectUnstableDeps :: "world \<Rightarrow> jsval list \<Rightarrow> jsval list option \<Rightarrow> nat list" where
  "detectUnstableDeps w currentDeps prevDeps =
     (if \<not> DEV w \<or> prevDeps = None then []
      else case prevDeps of
             None \<Rightarrow> []
           | Some p \<Rightarrow> detectUnstableDeps_loop w currentDeps p 0 [])"

section \<open>warn\<close>

record WarningConfig =
  wc_componentName :: "string option"
  wc_hookName :: string
  wc_message :: string
  wc_fix :: "string option"
  wc_details :: "string option"

text \<open>\<open>lines.join(sep)\<close>.\<close>

fun join :: "string \<Rightarrow> string list \<Rightarrow> string" where
  "join sep [] = []"
| "join sep [x] = x"
| "join sep (x # y # ys) = x @ sep @ join sep (y # ys)"

text \<open>
  The first line starts with the warning sign U+26A0 U+FE0F, written here as its
  UTF-8 bytes. The truthiness tests \<open>if (config.componentName)\<close>,
  \<open>if (config.details)\<close> and \<open>if (config.fix)\<close> are on optional strings: absent and
  the empty string are both falsy.
\<close>

definition warning_sign :: string where
  "warning_sign = [CHR 0xE2, CHR 0x9A, CHR 0xA0, CHR 0xEF, CHR 0xB8, CHR 0x8F]"

definition createWarning :: "WarningConfig \<Rightarrow> string" where
  "createWarning config =
     (let lines0 = [warning_sign @ '' react-safe-hooks warning:'', []];
          lines1 = (case wc_componentName config of
                      Some n \<Rightarrow> if n \<noteq> [] then lines0 @ [''Component: '' @ n] else lines0
                    | None \<Rightarrow> lines0);
          lines2 = lines1 @ [''Hook: '' @ wc_hookName config] @ [[]] @ [wc_message config];
          lines3 = (case wc_details config of
                      Some d \<Rightarrow> if d \<noteq> [] then lines2 @ [d] else lines2
                    | None \<Rightarrow> lines2);
          lines4 = (case wc_fix config of
                      Some f \<Rightarrow> if f \<noteq> [] then lines3 @ [[]] @ [''Fix:''] @ [f] else lines3
                    | None \<Rightarrow> lines3)
      in join [CHR 0x0A] lines4)"

definition warnOnce :: "world \<Rightarrow> string \<Rightarrow> string \<Rightarrow> world" where
  "warnOnce w key msg =
     (if \<not> DEV w then w
      else if key \<in> warnedKeys w then w
      else w\<lparr> warnedKeys := insert key (warnedKeys w), console := console w @ [msg] \<rparr>)"

definition warn :: "world \<Rightarrow> string \<Rightarrow> world" where
  "warn w msg = (if \<not> DEV w then w else w\<lparr> console := console w @ [msg] \<rparr>)"

text \<open>\<open>componentName || "Unknown"\<close>: the default replaces an absent or empty name.\<close>

definition createWarningKey :: "string \<Rightarrow> string \<Rightarrow> string option \<Rightarrow> string" where
  "createWarningKey hookName issueType componentName =
     (case componentName of
        Some n \<Rightarrow> if n \<noteq> [] then n else ''Unknown''
      | None \<Rightarrow> ''Unknown'')
       @ '':'' @ hookName @ '':'' @ issueType"

definition clearWarnings :: "world \<Rightarrow> world" where
  "clearWarnings w = w\<lparr> warnedKeys := {} \<rparr>"

section \<open>closureTracker\<close>

definition EXCESSIVE_CHANGE_THRESHOLD :: int where
  "EXCESSIVE_CHANGE_THRESHOLD = 5"

definition isExcessiveCallbackChange :: "world \<Rightarrow> int \<Rightarrow> int \<Rightarrow> bool" where
  "isExcessiveCallbackChange w changeCount renderCount =
     (if \<not> DEV w then False
      else if renderCount > 2 \<and> changeCount = renderCount then True
      else if changeCount > EXCESSIVE_CHANGE_THRESHOLD then True
      else False)"

section \<open>Hooks\<close>

text \<open>
  \<open>${n}\<close> in a template string, for an integer counter: its decimal digits.
\<close>

fun show_nat :: "nat \<Rightarrow> string" where
  "show_nat n =
     (if n < 10 then [''0123456789'' ! n]
      else show_nat (n div 10) @ [''0123456789'' ! (n mod 10)])"

definition show_int :: "int \<Rightarrow> string" where
  "show_int i = (if i < 0 then ''-'' @ show_nat (nat (- i)) else show_nat (nat i))"

text \<open>
  \<open>options?.field ?? d\<close>: the default stands in when \<open>options\<close> is absent or the
  field is.
\<close>

definition nullish :: "'o option \<Rightarrow> ('o \<Rightarrow> 'a option) \<Rightarrow> 'a \<Rightarrow> 'a" where
  "nullish options field d =
     (case options of
        None \<Rightarrow> d
      | Some opts \<Rightarrow> (case field opts of None \<Rightarrow> d | Some v \<Rightarrow> v))"

subsection \<open>useSafeMemo\<close>

record SafeMemoOptions =
  smo_name :: "string option"
  warnOnRecompute :: "bool option"
  recomputeThreshold :: "int option"

definition DEFAULT_RECOMPUTE_THRESHOLD :: int where
  "DEFAULT_RECOMPUTE_THRESHOLD = 10"

text \<open>
  \<open>wrappedFactory\<close>, the closure \<open>useSafeMemo\<close> hands to \<open>useMemo\<close> in development
  mode. \<open>componentName\<close> and \<open>renderCount\<close> are what \<open>useComponentName()\<close> and
  \<open>useRenderCount()\<close> returned in the render that built the closure,
  \<open>recomputeCount\<close> is \<open>recomputeCountRef.current\<close> before the call. The result is
  the world after the call and the new \<open>recomputeCountRef.current\<close>; the value of
  \<open>factory()\<close> is the caller's and is not modelled.
\<close>

definition wrappedFactory ::
  "world \<Rightarrow> SafeMemoOptions option \<Rightarrow> string \<Rightarrow> int \<Rightarrow> int \<Rightarrow> world \<times> int" where
  "wrappedFactory w options componentName renderCount recomputeCount =
     (let hookName = nullish options smo_name ''useSafeMemo'';
          warnOnRecompute' = nullish options warnOnRecompute True;
          recomputeThreshold' = nullish options recomputeThreshold DEFAULT_RECOMPUTE_THRESHOLD;
          current = recomputeCount + 1
      in (if warnOnRecompute' \<and> current > recomputeThreshold' \<and> current = renderCount
          then warnOnce w
                 (createWarningKey hookName ''excessive-recompute'' (Some componentName))
                 (createWarning
                    \<lparr> wc_componentName = Some componentName,
                      wc_hookName = hookName,
                      wc_message = ''Memoized value is recomputing on every render.'',
                      wc_fix = Some (''Check that your dependencies are stable. Avoid inline object/array/function ''
                        @ ''literals in the dependency array. If recomputation is intentional, ''
                        @ ''set warnOnRecompute: false or increase recomputeThreshold.''),
                      wc_details = Some (''The factory has been called '' @ show_int current
                        @ '' times in '' @ show_int renderCount
                        @ '' renders. This defeats the purpose of memoization.'') \<rparr>)
          else w,
          current))"

subsection \<open>useSafeContext\<close>

record SafeContextOptions =
  sco_name :: "string option"
  throwOnMissing :: "bool option"

datatype js_error = JSError string

text \<open>
  \<open>useSafeContext\<close>, after \<open>useContext(context)\<close> has returned \<open>v\<close> and (in
  development mode) \<open>useComponentName()\<close> has returned \<open>componentName\<close>.
  \<open>Inl\<close> is the thrown \<open>Error\<close>, \<open>Inr\<close> the world after the call and the value
  returned.
\<close>

definition useSafeContext ::
  "world \<Rightarrow> jsval \<Rightarrow> string \<Rightarrow> SafeContextOptions option \<Rightarrow> js_error + (world \<times> jsval)" where
  "useSafeContext w v componentName options =
     (if \<not> DEV w then Inr (w, v)
      else
        let hookName = nullish options sco_name ''useSafeContext'';
            throwOnMissing' = nullish options throwOnMissing False
        in if strict_equals v JUndefined
           then
             let message = createWarning
                   \<lparr> wc_componentName = Some componentName,
                     wc_hookName = hookName,
                     wc_message = ''Context value is undefined. This usually means the component is not wrapped in a Provider.'',
                     wc_fix = Some (''Wrap your component tree with the appropriate context provider, ''
                       @ ''or check that you'' @ [CHR 0x27] @ ''re importing the correct context.''),
                     wc_details = Some ''Make sure the component that uses this context is a descendant of the corresponding Provider.'' \<rparr>
             in if throwOnMissing' then Inl (JSError message)
                else Inr (warn w message, v)
           else Inr (w, v))"

subsection \<open>useSafeState and useSafeReducer\<close>

text \<open>
  What the development-mode closures \<open>safeSetState\<close> and \<open>safeDispatch\<close> capture:
  the ref \<open>isMountedRef\<close> (created as \<open>useRef(true)\<close>), the component name and the
  hook name (\<open>options?.name ?? "useSafeState"\<close>, or \<open>"useSafeReducer"\<close>).
\<close>

record hook_instance =
  isMountedRef :: bool
  hi_componentName :: string
  hi_hookName :: string

definition useSafeState_instance :: "string \<Rightarrow> string option \<Rightarrow> hook_instance" where
  "useSafeState_instance componentName name =
     \<lparr> isMountedRef = True, hi_componentName = componentName,
       hi_hookName = (case name of None \<Rightarrow> ''useSafeState'' | Some n \<Rightarrow> n) \<rparr>"

definition useSafeReducer_instance :: "string \<Rightarrow> string option \<Rightarrow> hook_instance" where
  "useSafeReducer_instance componentName name =
     \<lparr> isMountedRef = True, hi_componentName = componentName,
       hi_hookName = (case name of None \<Rightarrow> ''useSafeReducer'' | Some n \<Rightarrow> n) \<rparr>"

text \<open>
  The effect \<open>useEffect(() => { isMountedRef.current = true; return () => {
  isMountedRef.current = false; }; }, [])\<close>: its body runs when the component
  mounts, its cleanup when the component unmounts.
\<close>

definition mount_effect :: "hook_instance \<Rightarrow> hook_instance" where
  "mount_effect hk = hk\<lparr> isMountedRef := True \<rparr>"

definition unmount_cleanup :: "hook_instance \<Rightarrow> hook_instance" where
  "unmount_cleanup hk = hk\<lparr> isMountedRef := False \<rparr>"

text \<open>React's own \<open>setState\<close> and \<open>dispatch\<close>: the call is recorded.\<close>

definition setState :: "world \<Rightarrow> jsval \<Rightarrow> world" where
  "setState w v = w\<lparr> setStateCalls := setStateCalls w @ [v] \<rparr>"

definition dispatch :: "world \<Rightarrow> jsval \<Rightarrow> world" where
  "dispatch w action = w\<lparr> dispatchCalls := dispatchCalls w @ [action] \<rparr>"

definition safeSetState :: "world \<Rightarrow> hook_instance \<Rightarrow> jsval \<Rightarrow> world" where
  "safeSetState w hk v =
     (if \<not> isMountedRef hk
      then warn w
             (createWarning
                \<lparr> wc_componentName = Some (hi_componentName hk),
                  wc_hookName = hi_hookName hk,
                  wc_message = ''Attempted to update state after component unmounted.'',
                  wc_fix = Some (''Use useIsMounted() to check if the component is still mounted ''
                    @ ''before calling setState, or cancel the async operation in a cleanup function.''),
                  wc_details = Some (''This usually happens when an async operation completes after ''
                    @ ''the component has already been removed from the DOM.'') \<rparr>)
      else setState w v)"

text \<open>The setter \<open>useSafeState\<close> returns: React's own in production.\<close>

definition useSafeState_setter :: "world \<Rightarrow> hook_instance \<Rightarrow> jsval \<Rightarrow> world" where
  "useSafeState_setter w hk v = (if \<not> DEV w then setState w v else safeSetState w hk v)"

text \<open>
  The prototype chain. \<open>prototype_chain r\<close> lists the objects reached from the
  object \<open>r\<close> by following its prototype link, nearest first; it is empty for an
  object created with a null prototype. The engine keeps these chains finite and
  free of cycles. \<open>key in o\<close> holds when \<open>o\<close> or an object of its chain has an own
  property of that name, and \<open>o.key\<close> reads the nearest such property (data
  properties; \<open>undefined\<close> when there is none).
\<close>

fun prototypes :: "(nat \<Rightarrow> jsval list) \<Rightarrow> jsval \<Rightarrow> jsval list" where
  "prototypes prototype_chain (JObject r) = prototype_chain r"
| "prototypes prototype_chain (JFunction r) = prototype_chain r"
| "prototypes prototype_chain v = []"

definition has_property :: "(nat \<Rightarrow> jsval list) \<Rightarrow> heap \<Rightarrow> jsval \<Rightarrow> string \<Rightarrow> bool" where
  "has_property prototype_chain h v key =
     list_ex (\<lambda>holder. hasOwnProperty h holder key) (v # prototypes prototype_chain v)"

definition get_inherited :: "(nat \<Rightarrow> jsval list) \<Rightarrow> heap \<Rightarrow> jsval \<Rightarrow> string \<Rightarrow> jsval" where
  "get_inherited prototype_chain h v key =
     (case find (\<lambda>holder. hasOwnProperty h holder key) (v # prototypes prototype_chain v) of
        None \<Rightarrow> JUndefined
      | Some holder \<Rightarrow> get_property h holder key)"

text \<open>
  \<open>safeDispatch\<close>. The argument of \<open>createWarning\<close> is built before \<open>warn\<close> is
  called, and its \<open>details\<close> text applies \<open>String(...)\<close> to \<open>action.type\<close>.
  \<open>String_conv\<close> is that conversion of the host: \<open>Inr\<close> the text, or \<open>Inl\<close> the
  error it throws (a \<open>TypeError\<close> for an object with neither \<open>toString\<close> nor
  \<open>valueOf\<close>, or whatever those methods throw). The error leaves \<open>safeDispatch\<close>
  before anything is emitted, so the result is \<open>Inl\<close> the error or \<open>Inr\<close> the world
  after the call.
\<close>

definition safeDispatch ::
  "(nat \<Rightarrow> jsval list) \<Rightarrow> (jsval \<Rightarrow> js_error + string) \<Rightarrow> world \<Rightarrow> hook_instance \<Rightarrow> jsval
     \<Rightarrow> js_error + world" where
  "safeDispatch prototype_chain String_conv w hk action =
     (if \<not> isMountedRef hk
      then
        case (if typeof action = ''object'' \<and> action \<noteq> JNull \<and>
                 has_property prototype_chain (heap w) action ''type''
              then String_conv (get_inherited prototype_chain (heap w) action ''type'')
              else Inr ''unknown'') of
          Inl e \<Rightarrow> Inl e
        | Inr actionType \<Rightarrow>
            Inr (warn w
                   (createWarning
                      \<lparr> wc_componentName = Some (hi_componentName hk),
                        wc_hookName = hi_hookName hk,
                        wc_message = ''Attempted to dispatch action after component unmounted.'',
                        wc_fix = Some (''Use useIsMounted() to check if the component is still mounted ''
                          @ ''before dispatching, or cancel the async operation in a cleanup function.''),
                        wc_details = Some (''Action type: '' @ actionType @ ''. ''
                          @ ''This usually happens when an async operation completes after ''
                          @ ''the component has been removed from the DOM.'') \<rparr>))
      else Inr (dispatch w action))"

text \<open>The dispatch \<open>useSafeReducer\<close> returns: React's own in production.\<close>

definition useSafeReducer_dispatch ::
  "(nat \<Rightarrow> jsval list) \<Rightarrow> (jsval \<Rightarrow> js_error + string) \<Rightarrow> world \<Rightarrow> hook_instance \<Rightarrow> jsval
     \<Rightarrow> js_error + world" where
  "useSafeReducer_dispatch prototype_chain String_conv w hk action =
     (if \<not> DEV w then Inr (dispatch w action)
      else safeDispatch prototype_chain String_conv w hk action)"

subsection \<open>Runs of calls\<close>

text \<open>
  A run of \<open>warnOnce\<close> calls, in order, with no \<open>clearWarnings\<close> between them: the
  calls other call sites make between two calls of interest.
\<close>

fun warnOnce_calls :: "world \<Rightarrow> (string \<times> string) list \<Rightarrow> world" where
  "warnOnce_calls w [] = w"
| "warnOnce_calls w ((key, msg) # calls) = warnOnce_calls (warnOnce w key msg) calls"

subsection \<open>Plain objects\<close>

text \<open>
  An object all of whose own properties are enumerable (an object literal, not an
  array), with each key bound once.
\<close>

definition plain_object :: "heap \<Rightarrow> jsval \<Rightarrow> bool" where
  "plain_object h v =
     (distinct (map fst (own_properties h v)) \<and>
      list_all (\<lambda>kp. enumerable (snd kp)) (own_properties h v))"

section \<open>Properties\<close>

declare trackDependencyChanges_loop.simps [simp del]
declare detectUnstableDeps_loop.simps [simp del]
declare show_nat.simps [simp del]

subsection \<open>The dependency-list differ\<close>

text \<open>The index loop collects, in order, the indices at which the two reads differ.\<close>

lemma trackDependencyChanges_loop_filter:
  "trackDependencyChanges_loop c p m i acc =
     acc @ filter (\<lambda>j. \<not> Object_is (array_get c j) (array_get p j)) [i..<m]"
proof (induction c p m i acc rule: trackDependencyChanges_loop.induct)
  case (1 c p m i acc)
  show ?case
  proof (cases "i < m")
    case True
    then have "[i..<m] = i # [Suc i..<m]"
      by (simp add: upt_conv_Cons)
    with True 1 show ?thesis
      by (subst trackDependencyChanges_loop.simps) simp
  next
    case False
    then show ?thesis
      by (subst trackDependencyChanges_loop.simps) simp
  qed
qed

lemma changedIndices_filter:
  "changedIndices (trackDependencyChanges (Some c) (Some p)) =
     filter (\<lambda>i. \<not> Object_is (array_get c i) (array_get p i)) [0..<max (length c) (length p)]"
  by (simp add: trackDependencyChanges_def Let_def trackDependencyChanges_loop_filter)

text \<open>
  C1, as the code has it. For two present dependency lists, \<open>trackDependencyChanges\<close>
  walks the indices \<open>0..max(len(current), len(previous))-1\<close> and appends \<open>i\<close> to
  \<open>changedIndices\<close> exactly when \<open>current[i]\<close> is not identity-equal to
  \<open>previous[i]\<close>, where a read past the end of a list yields \<open>undefined\<close>. So an
  index that is in range for only one of the two lists is in \<open>changedIndices\<close>
  exactly when the value in range there is not \<open>undefined\<close>.
\<close>

theorem trackDependencyChanges_changedIndices:
  "changedIndices (trackDependencyChanges (Some c) (Some p)) =
     filter (\<lambda>i. \<not> Object_is (array_get c i) (array_get p i)) [0..<max (length c) (length p)]
   \<and> (\<forall>i. length p \<le> i \<and> i < length c \<longrightarrow>
         (i \<in> set (changedIndices (trackDependencyChanges (Some c) (Some p))) \<longleftrightarrow>
          c ! i \<noteq> JUndefined))
   \<and> (\<forall>i. length c \<le> i \<and> i < length p \<longrightarrow>
         (i \<in> set (changedIndices (trackDependencyChanges (Some c) (Some p))) \<longleftrightarrow>
          p ! i \<noteq> JUndefined))"
  unfolding changedIndices_filter
  by (auto simp: Object_is_def array_get_def)

theorem trackDependencyChanges_changedIndices_witness:
  "changedIndices
     (trackDependencyChanges (Some [JNull, JBoolean True, JUndefined]) (Some [JNull])) = [1]"
  using trackDependencyChanges_changedIndices
    [of "[JNull, JBoolean True, JUndefined]" "[JNull]"]
  by (simp add: Object_is_def array_get_def)

text \<open>
  C1 as stated fails: with \<open>current = [null, undefined]\<close> and \<open>previous = [null]\<close>,
  index 1 is in range for \<open>current\<close> only, and it is not in \<open>changedIndices\<close>
  (the length change is reported by \<open>lengthChanged\<close>).
\<close>

theorem trackDependencyChanges_out_of_range_counterexample:
  "(1::nat) < length [JNull, JUndefined] \<and> \<not> (1::nat) < length [JNull]
   \<and> 1 \<notin> set (changedIndices
                 (trackDependencyChanges (Some [JNull, JUndefined]) (Some [JNull])))
   \<and> lengthChanged (trackDependencyChanges (Some [JNull, JUndefined]) (Some [JNull]))"
  by (simp add: trackDependencyChanges_def Let_def trackDependencyChanges_loop_filter
      Object_is_def array_get_def)

subsection \<open>The threshold classifiers\<close>

text \<open>
  C4. In development mode, \<open>isExcessiveCallbackChange changeCount totalCycles\<close> is
  true if and only if \<open>totalCycles > 2\<close> and \<open>changeCount = totalCycles\<close>, or
  \<open>changeCount > 5\<close>. The witness evaluates it at \<open>(3, 3)\<close>, true, and at
  \<open>(2, 10)\<close>, false.
\<close>

theorem isExcessiveCallbackChange_iff:
  "DEV w \<Longrightarrow>
     isExcessiveCallbackChange w changeCount totalCycles =
       ((totalCycles > 2 \<and> changeCount = totalCycles) \<or> changeCount > 5)"
  by (simp add: isExcessiveCallbackChange_def EXCESSIVE_CHANGE_THRESHOLD_def)

theorem isExcessiveCallbackChange_witness:
  "isExcessiveCallbackChange (load_modules None (\<lambda>r. [])) 3 3
   \<and> \<not> isExcessiveCallbackChange (load_modules None (\<lambda>r. [])) 2 10"
  using isExcessiveCallbackChange_iff [of "load_modules None (\<lambda>r. [])" 3 3]
    isExcessiveCallbackChange_iff [of "load_modules None (\<lambda>r. [])" 2 10]
  by (simp add: load_modules_def)

text \<open>
  C5. In development mode \<open>wrappedFactory\<close> increments the recompute count and then
  reports an excessive recomputation (a warning under a key not yet warned) exactly
  when \<open>warnOnRecompute\<close> is on (its default), the new count is greater than the
  threshold and the new count equals the render count. The threshold is
  \<open>options.recomputeThreshold\<close> when given, 10 otherwise. The witness evaluates
  count 11, total 11, threshold 10 (reported), count 11, total 15 (not reported)
  and a call site with threshold 3.
\<close>

theorem wrappedFactory_excessive:
  assumes "DEV w"
    and "createWarningKey (nullish options smo_name ''useSafeMemo'') ''excessive-recompute''
           (Some componentName) \<notin> warnedKeys w"
  shows "snd (wrappedFactory w options componentName totalCycles count) = count + 1
       \<and> ((console (fst (wrappedFactory w options componentName totalCycles count)) \<noteq> console w)
            = (nullish options warnOnRecompute True
               \<and> count + 1 >
                   (case options of
                      None \<Rightarrow> 10
                    | Some opts \<Rightarrow> (case recomputeThreshold opts of None \<Rightarrow> 10 | Some t \<Rightarrow> t))
               \<and> count + 1 = totalCycles))"
  using assms
  by (simp add: wrappedFactory_def Let_def warnOnce_def DEFAULT_RECOMPUTE_THRESHOLD_def
      nullish_def split: option.splits)

theorem wrappedFactory_excessive_witness:
  "console (fst (wrappedFactory (load_modules None (\<lambda>r. [])) None ''App'' 11 10)) \<noteq> []
   \<and> console (fst (wrappedFactory (load_modules None (\<lambda>r. [])) None ''App'' 15 10)) = []
   \<and> console (fst (wrappedFactory (load_modules None (\<lambda>r. []))
         (Some \<lparr> smo_name = None, warnOnRecompute = None, recomputeThreshold = Some 3 \<rparr>)
         ''App'' 4 3)) \<noteq> []"
  using wrappedFactory_excessive [of "load_modules None (\<lambda>r. [])" None "''App''" 11 10]
    wrappedFactory_excessive [of "load_modules None (\<lambda>r. [])" None "''App''" 15 10]
    wrappedFactory_excessive [of "load_modules None (\<lambda>r. [])"
      "Some \<lparr> smo_name = None, warnOnRecompute = None, recomputeThreshold = Some 3 \<rparr>"
      "''App''" 4 3]
  by (simp add: load_modules_def nullish_def)

subsection \<open>The emitter\<close>

lemma warnOnce_DEV: "DEV (warnOnce w k m) = DEV w"
  by (simp add: warnOnce_def)

lemma warnOnce_calls_DEV: "DEV (warnOnce_calls w cs) = DEV w"
  by (induction w cs rule: warnOnce_calls.induct) (simp_all add: warnOnce_DEV)

lemma warnOnce_keeps_key: "k \<in> warnedKeys w \<Longrightarrow> k \<in> warnedKeys (warnOnce w k' m)"
  by (simp add: warnOnce_def)

lemma warnOnce_calls_keeps_key: "k \<in> warnedKeys w \<Longrightarrow> k \<in> warnedKeys (warnOnce_calls w cs)"
  by (induction w cs rule: warnOnce_calls.induct) (simp_all add: warnOnce_keeps_key)

lemma warnOnce_records_key: "DEV w \<Longrightarrow> k \<in> warnedKeys (warnOnce w k m)"
  by (simp add: warnOnce_def)


text \<open>
  C6. In development mode, \<open>warnOnce\<close> dispatches the message of a key that is not
  in \<open>warnedKeys\<close> once and of a key that is in it never; after a call with key
  \<open>k\<close>, a later call with \<open>k\<close> dispatches nothing, directly after it or after
  any run of other \<open>warnOnce\<close> calls; and after \<open>clearWarnings\<close> a call with
  \<open>k\<close> dispatches again.
\<close>

theorem warnOnce_at_most_once:
  assumes "DEV w"
  shows "(k \<notin> warnedKeys w \<longrightarrow> console (warnOnce w k m) = console w @ [m])
       \<and> (k \<in> warnedKeys w \<longrightarrow> console (warnOnce w k m) = console w)
       \<and> console (warnOnce (warnOnce w k m) k m') = console (warnOnce w k m)
       \<and> console (warnOnce (warnOnce_calls (warnOnce w k m) cs) k m')
           = console (warnOnce_calls (warnOnce w k m) cs)
       \<and> console (warnOnce (clearWarnings (warnOnce_calls (warnOnce w k m) cs)) k m')
           = console (warnOnce_calls (warnOnce w k m) cs) @ [m']"
proof -
  let ?w1 = "warnOnce w k m"
  let ?w2 = "warnOnce_calls ?w1 cs"
  have k1: "k \<in> warnedKeys ?w1"
    using assms by (rule warnOnce_records_key)
  then have k2: "k \<in> warnedKeys ?w2"
    by (rule warnOnce_calls_keeps_key)
  have d2: "DEV ?w2"
    using assms by (simp add: warnOnce_calls_DEV warnOnce_DEV)
  have a: "k \<notin> warnedKeys w \<longrightarrow> console ?w1 = console w @ [m]"
    using assms by (simp add: warnOnce_def)
  have b: "k \<in> warnedKeys w \<longrightarrow> console ?w1 = console w"
    by (simp add: warnOnce_def)
  have c: "console (warnOnce ?w1 k m') = console ?w1"
    using k1 by (simp add: warnOnce_def)
  have d: "console (warnOnce ?w2 k m') = console ?w2"
    using k2 by (simp add: warnOnce_def)
  have e: "console (warnOnce (clearWarnings ?w2) k m') = console ?w2 @ [m']"
    using d2 by (simp add: warnOnce_def clearWarnings_def)
  show ?thesis
    using a b c d e by (intro conjI)
qed

theorem warnOnce_at_most_once_witness:
  "console (warnOnce (warnOnce (load_modules None (\<lambda>r. [])) ''k1'' ''msg'') ''k1'' ''msg'')
     = [''msg'']
   \<and> console (warnOnce (clearWarnings
        (warnOnce (warnOnce (load_modules None (\<lambda>r. [])) ''k1'' ''msg'') ''k1'' ''msg''))
        ''k1'' ''msg'') = [''msg'', ''msg'']"
proof -
  let ?w = "load_modules None (\<lambda>r. [])"
  have dev: "DEV ?w"
    by (simp add: load_modules_def)
  have fresh: "''k1'' \<notin> warnedKeys ?w" and empty: "console ?w = []"
    by (simp_all add: load_modules_def)
  note t = warnOnce_at_most_once [OF dev, of "''k1''" "''msg''" "''msg''" "[(''k1'', ''msg'')]"]
  from t fresh empty have 1: "console (warnOnce ?w ''k1'' ''msg'') = [''msg'']"
    by simp
  from t have 2: "console (warnOnce (warnOnce ?w ''k1'' ''msg'') ''k1'' ''msg'')
      = console (warnOnce ?w ''k1'' ''msg'')"
    by blast
  from t have 3: "console (warnOnce (clearWarnings
        (warnOnce (warnOnce ?w ''k1'' ''msg'') ''k1'' ''msg'')) ''k1'' ''msg'')
      = console (warnOnce (warnOnce ?w ''k1'' ''msg'') ''k1'' ''msg'') @ [''msg'']"
    by simp
  from 1 2 3 show ?thesis by simp
qed

text \<open>
  C3, as the code has it. The mode switch \<open>__DEV__\<close> is computed once, when the
  module is loaded, as \<open>process.env.NODE_ENV !== "production"\<close>; every call of
  \<open>warnOnce\<close> and \<open>warn\<close> consults that constant. An assignment to
  \<open>NODE_ENV\<close> after the load does not change it: the first emit call after the
  load dispatches exactly when \<open>NODE_ENV\<close> was not \<open>"production"\<close> at load time,
  whatever \<open>NODE_ENV\<close> is at the time of the call.
\<close>

theorem mode_switch_fixed_at_load:
  "DEV (set_NODE_ENV env' w) = DEV w
   \<and> console (warnOnce (set_NODE_ENV env' (load_modules env h)) key msg)
       = (if env = Some ''production'' then [] else [msg])
   \<and> console (warn (set_NODE_ENV env' (load_modules env h)) msg)
       = (if env = Some ''production'' then [] else [msg])"
  by (simp add: set_NODE_ENV_def load_modules_def warnOnce_def warn_def)

theorem mode_switch_fixed_at_load_witness:
  "console (warn (set_NODE_ENV None (load_modules (Some ''production'') (\<lambda>r. []))) ''msg'') = []"
  using mode_switch_fixed_at_load [of None undefined "Some ''production''" "\<lambda>r. []" undefined "''msg''"]
  by simp

text \<open>
  C3 as stated fails: loaded under \<open>"development"\<close> and then switched to
  \<open>"production"\<close>, \<open>warnOnce\<close> still dispatches; loaded under \<open>"production"\<close>
  and then switched to \<open>"development"\<close>, \<open>warn\<close> still dispatches nothing.
\<close>

theorem mode_switch_toggle_counterexample:
  "NODE_ENV (set_NODE_ENV (Some ''production'') (load_modules (Some ''development'') (\<lambda>r. [])))
     = Some ''production''
   \<and> console (warnOnce
        (set_NODE_ENV (Some ''production'') (load_modules (Some ''development'') (\<lambda>r. [])))
        ''k1'' ''msg'') = [''msg'']
   \<and> console (warn
        (set_NODE_ENV (Some ''development'') (load_modules (Some ''production'') (\<lambda>r. [])))
        ''msg'') = []"
  by (simp add: set_NODE_ENV_def load_modules_def warnOnce_def warn_def)

subsection \<open>The unstable-reference detector\<close>

text \<open>The index loop collects, in order, the indices that pass the three tests.\<close>

lemma detectUnstableDeps_loop_filter:
  "detectUnstableDeps_loop w c p i acc =
     acc @ filter (\<lambda>j. \<not> strict_equals (array_get c j) (array_get p j)
                      \<and> typeof (array_get c j) = ''object'' \<and> array_get c j \<noteq> JNull
                      \<and> typeof (array_get p j) = ''object'' \<and> array_get p j \<noteq> JNull
                      \<and> shallowEqual w (array_get c j) (array_get p j)) [i..<length c]"
proof (induction w c p i acc rule: detectUnstableDeps_loop.induct)
  case (1 w c p i acc)
  show ?case
  proof (cases "i < length c")
    case True
    then have "[i..<length c] = i # [Suc i..<length c]"
      by (simp add: upt_conv_Cons)
    with True 1 show ?thesis
      by (subst detectUnstableDeps_loop.simps) (simp add: Let_def)
  next
    case False
    then show ?thesis
      by (subst detectUnstableDeps_loop.simps) simp
  qed
qed

lemma detectUnstableDeps_member:
  assumes a: "i \<in> set (detectUnstableDeps w currentDeps prevDeps)"
  shows "\<exists>p. prevDeps = Some p \<and> i < length currentDeps \<and> i < length p
       \<and> typeof (currentDeps ! i) = ''object'' \<and> currentDeps ! i \<noteq> JNull
       \<and> typeof (p ! i) = ''object'' \<and> p ! i \<noteq> JNull"
proof -
  from a obtain p where p: "prevDeps = Some p"
    by (cases prevDeps) (simp_all add: detectUnstableDeps_def)
  from a p have m: "i \<in> set (detectUnstableDeps_loop w currentDeps p 0 [])"
    by (simp add: detectUnstableDeps_def split: if_splits)
  then have lt: "i < length currentDeps"
    and c: "typeof (array_get currentDeps i) = ''object''" "array_get currentDeps i \<noteq> JNull"
    and q: "typeof (array_get p i) = ''object''" "array_get p i \<noteq> JNull"
    by (simp_all add: detectUnstableDeps_loop_filter)
  from q have lt': "i < length p"
    by (auto simp: array_get_def split: if_splits)
  from lt lt' c q p show ?thesis
    by (simp add: array_get_def)
qed

text \<open>
  C10. \<open>detectUnstableDeps\<close> reports an index only when a previous list is present,
  the index is in range of both lists, and both the current and the previous value
  there are non-null values of \<open>typeof "object"\<close>. A dependency that is a function
  or a primitive is never reported, whatever the previous value is.
\<close>

theorem detectUnstableDeps_objects_only:
  "(i \<in> set (detectUnstableDeps w currentDeps prevDeps) \<longrightarrow>
      (\<exists>p. prevDeps = Some p \<and> i < length currentDeps \<and> i < length p
         \<and> typeof (currentDeps ! i) = ''object'' \<and> currentDeps ! i \<noteq> JNull
         \<and> typeof (p ! i) = ''object'' \<and> p ! i \<noteq> JNull))
   \<and> (typeof (currentDeps ! i) \<noteq> ''object'' \<longrightarrow>
        i \<notin> set (detectUnstableDeps w currentDeps prevDeps))"
  using detectUnstableDeps_member [of i w currentDeps prevDeps] by blast

theorem detectUnstableDeps_objects_only_witness:
  "0 \<in> set (detectUnstableDeps
              (load_modules None (\<lambda>r. [(''x'', Property True (JNumber (Finite 1)))]))
              [JObject 1] (Some [JObject 2]))
   \<and> typeof ([JObject 1] ! 0) = ''object''
   \<and> 0 \<notin> set (detectUnstableDeps
              (load_modules None (\<lambda>r. [(''x'', Property True (JNumber (Finite 1)))]))
              [JFunction 1] (Some [JFunction 2]))"
proof -
  let ?w = "load_modules None (\<lambda>r. [(''x'', Property True (JNumber (Finite 1)))])"
  have 1: "0 \<in> set (detectUnstableDeps ?w [JObject 1] (Some [JObject 2]))"
    by (simp add: detectUnstableDeps_def load_modules_def detectUnstableDeps_loop_filter
        array_get_def shallowEqual_def Object_is_def Object_keys_def hasOwnProperty_def
        get_property_def)
  from 1 detectUnstableDeps_objects_only [of 0 ?w "[JObject 1]" "Some [JObject 2]"]
  have 2: "typeof ([JObject 1] ! 0) = ''object''"
    by blast
  have "typeof ([JFunction 1] ! 0) \<noteq> ''object''"
    by simp
  with detectUnstableDeps_objects_only [of 0 ?w "[JFunction 1]" "Some [JFunction 2]"]
  have 3: "0 \<notin> set (detectUnstableDeps ?w [JFunction 1] (Some [JFunction 2]))"
    by blast
  from 1 2 3 show ?thesis by blast
qed

subsection \<open>Production mode\<close>

text \<open>
  C2, as the code has it. When \<open>__DEV__\<close> is false, \<open>warnOnce\<close>, \<open>warn\<close> and the
  hook operations that call them dispatch nothing to the console, and
  \<open>shallowEqual\<close> returns what it returns in development mode
  (\<open>trackDependencyChanges\<close> reads nothing but its two arguments and so has no
  world argument at all); \<open>detectUnstableDeps\<close> is gated like the emitters and
  returns the empty list.
\<close>

theorem production_gates_emission:
  assumes "\<not> DEV w"
  shows "console (warnOnce w key msg) = console w
       \<and> console (warn w msg) = console w
       \<and> console (fst (wrappedFactory w memoOptions componentName totalCycles count)) = console w
       \<and> useSafeContext w v componentName contextOptions = Inr (w, v)
       \<and> console (useSafeState_setter w hk v) = console w
       \<and> useSafeReducer_dispatch prototype_chain String_conv w hk v = Inr (dispatch w v)
       \<and> console (dispatch w v) = console w
       \<and> shallowEqual w a b = shallowEqual (w\<lparr> DEV := True \<rparr>) a b
       \<and> detectUnstableDeps w currentDeps prevDeps = []"
  using assms
  by (simp add: warnOnce_def warn_def wrappedFactory_def Let_def useSafeContext_def
      useSafeState_setter_def useSafeReducer_dispatch_def setState_def dispatch_def
      shallowEqual_def detectUnstableDeps_def)

theorem production_gates_emission_witness:
  "console (warnOnce (load_modules (Some ''production'') (\<lambda>r. [])) ''k1'' ''msg'') = []
   \<and> console (warn (load_modules (Some ''production'') (\<lambda>r. [])) ''msg'') = []"
  using production_gates_emission [of "load_modules (Some ''production'') (\<lambda>r. [])" "''k1''" "''msg''"]
  by (simp add: load_modules_def)

text \<open>
  C2 as stated fails for \<open>detectUnstableDeps\<close>: on two distinct objects \<open>{x: 1}\<close>
  it returns \<open>[]\<close> in production mode and \<open>[0]\<close> in development mode.
\<close>

theorem detectUnstableDeps_gated_counterexample:
  "detectUnstableDeps
     (load_modules (Some ''production'') (\<lambda>r. [(''x'', Property True (JNumber (Finite 1)))]))
     [JObject 1] (Some [JObject 2]) = []
   \<and> detectUnstableDeps
     (load_modules None (\<lambda>r. [(''x'', Property True (JNumber (Finite 1)))]))
     [JObject 1] (Some [JObject 2]) = [0]"
  by (simp add: detectUnstableDeps_def load_modules_def detectUnstableDeps_loop_filter
      array_get_def shallowEqual_def Object_is_def Object_keys_def hasOwnProperty_def
      get_property_def)

subsection \<open>The comparator\<close>

text \<open>
  C8. Symmetry of \<open>shallowEqual\<close> fails on the code: for \<open>a = {length: 1}\<close> and
  the array \<open>b = [5]\<close>, \<open>shallowEqual(a, b)\<close> is true and \<open>shallowEqual(b, a)\<close> is
  false. The keys of \<open>a\<close> are taken with \<open>Object.keys\<close> (enumerable only), and
  looked up in \<open>b\<close> with \<open>hasOwnProperty\<close>, which also finds the array's own
  \<open>length\<close>, a property that is not enumerable.
\<close>

theorem shallowEqual_asymmetric:
  "shallowEqual
     (load_modules None
        (\<lambda>r. if r = 1 then [(''length'', Property True (JNumber (Finite 1)))]
             else [(''0'', Property True (JNumber (Finite 5))),
                   (''length'', Property False (JNumber (Finite 1)))]))
     (JObject 1) (JObject 2) = True
   \<and> shallowEqual
     (load_modules None
        (\<lambda>r. if r = 1 then [(''length'', Property True (JNumber (Finite 1)))]
             else [(''0'', Property True (JNumber (Finite 5))),
                   (''length'', Property False (JNumber (Finite 1)))]))
     (JObject 2) (JObject 1) = False"
  by (simp add: shallowEqual_def load_modules_def Object_is_def Object_keys_def
      hasOwnProperty_def get_property_def)

theorem shallowEqual_asymmetric_witness:
  "shallowEqual
     (load_modules None
        (\<lambda>r. if r = 1 then [(''length'', Property True (JNumber (Finite 1)))]
             else [(''0'', Property True (JNumber (Finite 5))),
                   (''length'', Property False (JNumber (Finite 1)))]))
     (JObject 1) (JObject 2)
   \<noteq> shallowEqual
     (load_modules None
        (\<lambda>r. if r = 1 then [(''length'', Property True (JNumber (Finite 1)))]
             else [(''0'', Property True (JNumber (Finite 5))),
                   (''length'', Property False (JNumber (Finite 1)))]))
     (JObject 2) (JObject 1)"
  using shallowEqual_asymmetric by simp

text \<open>
  On plain objects the comparator is symmetric: the loop compares the key sets of
  both sides.
\<close>

lemma shallowEqual_loop_iff:
  "shallowEqual_loop h a b ks \<longleftrightarrow>
     (\<forall>k \<in> set ks. hasOwnProperty h b k \<and> get_property h a k = get_property h b k)"
  by (induction ks) (auto simp: Object_is_def)

lemma plain_keys:
  "plain_object h v \<Longrightarrow> Object_keys h v = map fst (own_properties h v)"
  by (simp add: plain_object_def Object_keys_def list_all_iff)

lemma plain_hasOwnProperty:
  "plain_object h v \<Longrightarrow> hasOwnProperty h v k \<longleftrightarrow> k \<in> set (Object_keys h v)"
  by (simp add: plain_keys hasOwnProperty_def map_of_eq_None_iff)

lemma shallowEqual_plain_imp:
  assumes a: "plain_object (heap w) a" and b: "plain_object (heap w) b"
    and eq: "shallowEqual w a b"
  shows "shallowEqual w b a"
proof (cases "a = b")
  case True
  then show ?thesis by (simp add: shallowEqual_def Object_is_def)
next
  case False
  let ?ka = "Object_keys (heap w) a" and ?kb = "Object_keys (heap w) b"
  from False eq have ty: "typeof a = ''object''" "a \<noteq> JNull" "typeof b = ''object''" "b \<noteq> JNull"
    and len: "length ?ka = length ?kb"
    and loop: "shallowEqual_loop (heap w) a b ?ka"
    by (auto simp: shallowEqual_def Object_is_def Let_def split: if_splits)
  from loop b have sub: "set ?ka \<subseteq> set ?kb"
    and agree: "\<forall>k \<in> set ?ka. get_property (heap w) a k = get_property (heap w) b k"
    by (auto simp: shallowEqual_loop_iff plain_hasOwnProperty)
  from a b have da: "distinct ?ka" and db: "distinct ?kb"
    by (simp_all add: plain_keys plain_object_def)
  from da db len have "card (set ?ka) = card (set ?kb)"
    by (simp add: distinct_card)
  with sub have same: "set ?ka = set ?kb"
    by (simp add: card_subset_eq)
  with agree a have "shallowEqual_loop (heap w) b a ?kb"
    by (auto simp: shallowEqual_loop_iff plain_hasOwnProperty)
  with False ty len show ?thesis
    by (auto simp: shallowEqual_def Object_is_def Let_def)
qed

lemma shallowEqual_plain_sym:
  "plain_object (heap w) a \<Longrightarrow> plain_object (heap w) b \<Longrightarrow>
     shallowEqual w a b = shallowEqual w b a"
  using shallowEqual_plain_imp [of w a b] shallowEqual_plain_imp [of w b a] by blast

subsection \<open>useSafeContext\<close>

text \<open>
  C7, as the code has it. In development mode \<open>useSafeContext\<close> throws if and only
  if the consumed value is \<open>undefined\<close> and \<open>options.throwOnMissing\<close> is given as
  true; when the value is \<open>undefined\<close> and the flag is absent (its default is
  false) or false, one warning is emitted and \<open>undefined\<close> is returned; any other
  value is returned with nothing emitted. In production mode it never throws and
  returns the value. Nothing is stated about the other operations of the library.
\<close>

theorem useSafeContext_throws_iff:
  "(DEV w \<longrightarrow>
      ((\<exists>e. useSafeContext w v componentName options = Inl e) \<longleftrightarrow>
         (v = JUndefined \<and> (\<exists>opts. options = Some opts \<and> throwOnMissing opts = Some True)))
      \<and> (v = JUndefined \<and> \<not> (\<exists>opts. options = Some opts \<and> throwOnMissing opts = Some True) \<longrightarrow>
           (\<exists>msg. useSafeContext w v componentName options = Inr (warn w msg, JUndefined)
                  \<and> console (warn w msg) = console w @ [msg]))
      \<and> (v \<noteq> JUndefined \<longrightarrow> useSafeContext w v componentName options = Inr (w, v)))
   \<and> (\<not> DEV w \<longrightarrow> useSafeContext w v componentName options = Inr (w, v))"
proof -
  have s: "strict_equals v JUndefined = (v = JUndefined)"
    by (cases v) simp_all
  have n: "nullish options throwOnMissing False
             = (\<exists>opts. options = Some opts \<and> throwOnMissing opts = Some True)"
    by (auto simp: nullish_def split: option.splits)
  show ?thesis
    by (auto simp: useSafeContext_def Let_def s n warn_def)
qed

theorem useSafeContext_throws_iff_witness:
  "(\<exists>e. useSafeContext (load_modules None (\<lambda>r. [])) JUndefined ''App''
           (Some \<lparr> sco_name = None, throwOnMissing = Some True \<rparr>) = Inl e)
   \<and> (\<exists>w' . useSafeContext (load_modules None (\<lambda>r. [])) JUndefined ''App'' None
           = Inr (w', JUndefined) \<and> length (console w') = 1)"
proof -
  let ?w = "load_modules None (\<lambda>r. [])"
  have dev: "DEV ?w" and empty: "console ?w = []"
    by (simp_all add: load_modules_def)
  from dev useSafeContext_throws_iff [of ?w JUndefined "''App''"
      "Some \<lparr> sco_name = None, throwOnMissing = Some True \<rparr>"]
  have 1: "\<exists>e. useSafeContext ?w JUndefined ''App''
           (Some \<lparr> sco_name = None, throwOnMissing = Some True \<rparr>) = Inl e"
    by simp
  from dev useSafeContext_throws_iff [of ?w JUndefined "''App''" None]
  obtain msg where "useSafeContext ?w JUndefined ''App'' None = Inr (warn ?w msg, JUndefined)"
    and "console (warn ?w msg) = console ?w @ [msg]"
    by auto
  with empty have 2: "\<exists>w'. useSafeContext ?w JUndefined ''App'' None = Inr (w', JUndefined)
      \<and> length (console w') = 1"
    by simp
  from 1 2 show ?thesis by blast
qed

text \<open>
  C7 as stated fails twice. In production mode, with the value \<open>undefined\<close> and
  \<open>throwOnMissing: true\<close>, nothing is thrown and \<open>undefined\<close> is returned. And
  \<open>useSafeContext\<close> is not the only place where a warning condition ends in a thrown
  error: a dispatch after unmount of the action \<open>{type: Object.create(null)}\<close> throws
  the \<open>TypeError\<close> of \<open>String(action.type)\<close> in place of its warning. Below, object
  1 is the action (its prototype, object 0, holds \<open>toString\<close> and \<open>valueOf\<close>) and
  object 2 is its \<open>type\<close>, with a null prototype and no property.
\<close>

theorem useSafeContext_escalation_counterexample:
  "useSafeContext (load_modules (Some ''production'') (\<lambda>r. [])) JUndefined ''App''
     (Some \<lparr> sco_name = None, throwOnMissing = Some True \<rparr>)
   = Inr (load_modules (Some ''production'') (\<lambda>r. []), JUndefined)
   \<and> useSafeReducer_dispatch
       (\<lambda>r. if r = 1 then [JObject 0] else [])
       (\<lambda>v. if v = JObject 2
            then Inl (JSError ''TypeError: Cannot convert object to primitive value'')
            else Inr ''[object Object]'')
       (load_modules None
          (\<lambda>r. if r = 0 then [(''toString'', Property False (JFunction 3)),
                             (''valueOf'', Property False (JFunction 4))]
               else if r = 1 then [(''type'', Property True (JObject 2))]
               else []))
       (unmount_cleanup (mount_effect (useSafeReducer_instance ''App'' None)))
       (JObject 1)
     = Inl (JSError ''TypeError: Cannot convert object to primitive value'')"
  by (simp add: useSafeContext_def load_modules_def useSafeReducer_dispatch_def
      safeDispatch_def unmount_cleanup_def mount_effect_def has_property_def
      get_inherited_def hasOwnProperty_def get_property_def)

subsection \<open>useSafeState and useSafeReducer\<close>

text \<open>
  What holds of the two setters in development mode. The setter of \<open>useSafeState\<close>
  called while \<open>isMountedRef\<close> is false, as it is after the unmount cleanup, does
  not invoke React's \<open>setState\<close> and emits one warning; called while it is true, it
  forwards the value unchanged. The dispatch of \<open>useSafeReducer\<close> forwards the
  action unchanged while mounted; after unmount it never invokes React's
  \<open>dispatch\<close>, and it either emits one warning or throws, the latter exactly when
  the action is an object with a \<open>type\<close> whose string conversion throws.
\<close>

lemma useSafeState_setter_unmounted:
  assumes "DEV w"
  shows "(\<not> isMountedRef hk \<longrightarrow>
            setStateCalls (useSafeState_setter w hk v) = setStateCalls w
            \<and> (\<exists>msg. console (useSafeState_setter w hk v) = console w @ [msg]))
       \<and> (isMountedRef hk \<longrightarrow>
            setStateCalls (useSafeState_setter w hk v) = setStateCalls w @ [v]
            \<and> console (useSafeState_setter w hk v) = console w)
       \<and> \<not> isMountedRef (unmount_cleanup hk)
       \<and> isMountedRef (mount_effect hk)"
  using assms
  by (simp add: useSafeState_setter_def safeSetState_def warn_def setState_def
      unmount_cleanup_def mount_effect_def)

lemma useSafeReducer_dispatch_mounted:
  "DEV w \<Longrightarrow> isMountedRef hk \<Longrightarrow>
     useSafeReducer_dispatch prototype_chain String_conv w hk action = Inr (dispatch w action)
     \<and> dispatchCalls (dispatch w action) = dispatchCalls w @ [action]
     \<and> console (dispatch w action) = console w"
  by (simp add: useSafeReducer_dispatch_def safeDispatch_def dispatch_def)

lemma useSafeReducer_dispatch_unmounted:
  assumes "DEV w" and "\<not> isMountedRef hk"
  shows "(\<exists>e. useSafeReducer_dispatch prototype_chain String_conv w hk action = Inl e)
       \<or> (\<exists>msg. useSafeReducer_dispatch prototype_chain String_conv w hk action
                   = Inr (warn w msg)
                 \<and> dispatchCalls (warn w msg) = dispatchCalls w
                 \<and> console (warn w msg) = console w @ [msg])"
  using assms
  by (auto simp: useSafeReducer_dispatch_def safeDispatch_def warn_def split: sum.splits)

lemma useSafeReducer_dispatch_throws_iff:
  assumes "DEV w"
  shows "useSafeReducer_dispatch prototype_chain String_conv w hk action = Inl e \<longleftrightarrow>
           \<not> isMountedRef hk \<and> typeof action = ''object'' \<and> action \<noteq> JNull
           \<and> has_property prototype_chain (heap w) action ''type''
           \<and> String_conv (get_inherited prototype_chain (heap w) action ''type'') = Inl e"
  using assms
  by (auto simp: useSafeReducer_dispatch_def safeDispatch_def split: sum.splits if_splits)

text \<open>
  C9. The claim fails on the code for \<open>useSafeReducer\<close>: in development mode, after
  unmount, \<open>dispatch({type: Object.create(null)})\<close> does not emit a warning and is
  not dropped silently. \<open>safeDispatch\<close> builds the warning text first, and
  \<open>String(action.type)\<close> throws a \<open>TypeError\<close> that leaves \<open>safeDispatch\<close> before
  \<open>warn\<close> is reached. Object 1 is the action (its prototype, object 0, holds
  \<open>toString\<close> and \<open>valueOf\<close>), object 2 is its \<open>type\<close>, with a null prototype and
  no property. The setter of \<open>useSafeState\<close> builds its text from constants and
  always warns.
\<close>

theorem useSafeReducer_dispatch_unmounted_throws:
  "useSafeReducer_dispatch
     (\<lambda>r. if r = 1 then [JObject 0] else [])
     (\<lambda>v. if v = JObject 2
          then Inl (JSError ''TypeError: Cannot convert object to primitive value'')
          else Inr ''[object Object]'')
     (load_modules None
        (\<lambda>r. if r = 0 then [(''toString'', Property False (JFunction 3)),
                           (''valueOf'', Property False (JFunction 4))]
             else if r = 1 then [(''type'', Property True (JObject 2))]
             else []))
     (unmount_cleanup (mount_effect (useSafeReducer_instance ''App'' None)))
     (JObject 1)
   = Inl (JSError ''TypeError: Cannot convert object to primitive value'')"
proof -
  let ?pc = "\<lambda>r::nat. if r = 1 then [JObject 0] else []"
  let ?h = "\<lambda>r::nat. if r = 0 then [(''toString'', Property False (JFunction 3)),
                           (''valueOf'', Property False (JFunction 4))]
             else if r = 1 then [(''type'', Property True (JObject 2))]
             else []"
  let ?w = "load_modules None ?h"
  have dev: "DEV ?w" and hp: "heap ?w = ?h"
    by (simp_all add: load_modules_def)
  have un: "\<not> isMountedRef (unmount_cleanup (mount_effect (useSafeReducer_instance ''App'' None)))"
    by (simp add: unmount_cleanup_def)
  have has: "has_property ?pc ?h (JObject 1) ''type''"
    by (simp add: has_property_def hasOwnProperty_def)
  have get: "get_inherited ?pc ?h (JObject 1) ''type'' = JObject 2"
    by (simp add: get_inherited_def hasOwnProperty_def get_property_def)
  show ?thesis
    unfolding useSafeReducer_dispatch_throws_iff [OF dev] hp
    using un has get by simp
qed

theorem useSafeReducer_dispatch_unmounted_throws_witness:
  "\<forall>w'. useSafeReducer_dispatch
     (\<lambda>r. if r = 1 then [JObject 0] else [])
     (\<lambda>v. if v = JObject 2
          then Inl (JSError ''TypeError: Cannot convert object to primitive value'')
          else Inr ''[object Object]'')
     (load_modules None
        (\<lambda>r. if r = 0 then [(''toString'', Property False (JFunction 3)),
                           (''valueOf'', Property False (JFunction 4))]
             else if r = 1 then [(''type'', Property True (JObject 2))]
             else []))
     (unmount_cleanup (mount_effect (useSafeReducer_instance ''App'' None)))
     (JObject 1)
   \<noteq> Inr w'"
  using useSafeReducer_dispatch_unmounted_throws by simp

end
